theory Spec2Isabelle
  imports Complex_Main "HOL-Library.AList"
begin

section \<open>Values exchanged with the endpoint\<close>

text \<open>
  The scripts handle the values that \<^verbatim>\<open>response.json()\<close> produces. A parsed JSON
  document is a Python value: \<^verbatim>\<open>None\<close>, a bool, an int, a float, a str, a list or
  a dict with string keys. The datatype below has one constructor for each. A dict is
  kept as the list of its items in insertion order (a Python dict has no two items
  with the same key; where such a list is looked up, the first item with the key is
  taken). A float is carried as the rational number that the parsed double equals.
  A character is a code point below 256.
\<close>

datatype json =
    JNull
  | JBool bool
  | JInt int
  | JFloat rat
  | JStr string
  | JArr "json list"
  | JObj "(string \<times> json) list"

text \<open>Python's truth value of such a value, as \<^verbatim>\<open>if error:\<close> and \<^verbatim>\<open>if not height:\<close> test it.\<close>

fun truthy :: "json \<Rightarrow> bool" where
  "truthy JNull = False"
| "truthy (JBool b) = b"
| "truthy (JInt i) = (i \<noteq> 0)"
| "truthy (JFloat r) = (r \<noteq> 0)"
| "truthy (JStr s) = (s \<noteq> [])"
| "truthy (JArr xs) = (xs \<noteq> [])"
| "truthy (JObj kvs) = (kvs \<noteq> [])"

text \<open>
  Every \<^verbatim>\<open>raise\<close> and every \<^verbatim>\<open>sys.exit\<close> that can end a run of the scripts.
  \<open>SystemExit 1\<close> is \<^verbatim>\<open>sys.exit(1)\<close> of \<^verbatim>\<open>rpc_call\<close>; \<open>SystemExit 2\<close> is how
  argparse leaves on a value outside \<^verbatim>\<open>choices\<close>. \<open>HTTPError\<close> is raised by
  \<^verbatim>\<open>raise_for_status\<close>, \<open>ConnectionError\<close> by \<^verbatim>\<open>requests.post\<close> when no response
  arrives, \<open>JSONDecodeError\<close> by \<^verbatim>\<open>response.json()\<close> on a body that is not JSON.
\<close>

datatype abort =
    SystemExit int
  | TypeError
  | ValueError
  | AttributeError
  | KeyError
  | HTTPError nat
  | ConnectionError
  | JSONDecodeError

section \<open>Python's \<^verbatim>\<open>hex\<close> and \<^verbatim>\<open>int(s, 0)\<close>\<close>

definition hex_digit :: "nat \<Rightarrow> char" where
  "hex_digit d = ''0123456789abcdef'' ! d"

fun hex_nat :: "nat \<Rightarrow> string" where
  "hex_nat n = (if n < 16 then [hex_digit n] else hex_nat (n div 16) @ [hex_digit (n mod 16)])"

declare hex_nat.simps [simp del]

text \<open>\<^verbatim>\<open>hex(i)\<close>: lower-case digits after \<^verbatim>\<open>0x\<close>, and a leading minus sign for a negative int.\<close>

definition hex :: "int \<Rightarrow> string" where
  "hex i = (if i < 0 then ''-'' else '''') @ ''0x'' @ hex_nat (nat \<bar>i\<bar>)"

text \<open>
  \<^verbatim>\<open>int(s, 0)\<close> on a str follows CPython's \<^verbatim>\<open>PyLong_FromString\<close>: white space is
  skipped on both sides, then an optional sign, then the base is read off the prefix
  (\<^verbatim>\<open>0x\<close>, \<^verbatim>\<open>0o\<close>, \<^verbatim>\<open>0b\<close> in either case; decimal otherwise, where a literal that
  starts with \<^verbatim>\<open>0\<close> has to be zero). One underscore may follow the prefix and one may
  stand between two digits. A decimal literal of more than 4300 digits is refused
  (the default of \<^verbatim>\<open>sys.int_max_str_digits\<close>). Every failure is a ValueError.
\<close>

definition is_space :: "char \<Rightarrow> bool" where
  "is_space c = (let n = (of_char c :: nat) in (9 \<le> n \<and> n \<le> 13) \<or> n = 32 \<or> n = 133 \<or> n = 160)"

definition digit_value :: "char \<Rightarrow> nat" where
  "digit_value c =
     (let n = (of_char c :: nat) in
      if 48 \<le> n \<and> n \<le> 57 then n - 48
      else if 97 \<le> n \<and> n \<le> 122 then n - 87
      else if 65 \<le> n \<and> n \<le> 90 then n - 55
      else 37)"

definition scan_char :: "nat \<Rightarrow> char \<Rightarrow> bool" where
  "scan_char base c = (digit_value c < base \<or> c = CHR ''_'')"

fun underscores_ok :: "string \<Rightarrow> bool" where
  "underscores_ok [] = True"
| "underscores_ok [c] = (c \<noteq> CHR ''_'')"
| "underscores_ok (c # d # cs) = (\<not> (c = CHR ''_'' \<and> d = CHR ''_'') \<and> underscores_ok (d # cs))"

definition digits_value :: "nat \<Rightarrow> string \<Rightarrow> nat" where
  "digits_value base ds = foldl (\<lambda>a c. a * base + digit_value c) 0 ds"

text \<open>The base that a literal announces, and whether it is a decimal that must be zero.\<close>

fun detect_base :: "string \<Rightarrow> nat \<times> bool" where
  "detect_base (c # d # cs) =
     (if c \<noteq> CHR ''0'' then (10, False)
      else if d = CHR ''x'' \<or> d = CHR ''X'' then (16, False)
      else if d = CHR ''o'' \<or> d = CHR ''O'' then (8, False)
      else if d = CHR ''b'' \<or> d = CHR ''B'' then (2, False)
      else (10, True))"
| "detect_base [c] = (if c \<noteq> CHR ''0'' then (10, False) else (10, True))"
| "detect_base [] = (10, False)"

definition int_base0 :: "string \<Rightarrow> int option" where
  "int_base0 s =
     (let s1 = dropWhile is_space s;
          (sign, s2) = (case s1 of
                          c # cs \<Rightarrow> if c = CHR ''+'' then (1, cs)
                                    else if c = CHR ''-'' then (- 1, cs)
                                    else (1 :: int, s1)
                        | [] \<Rightarrow> (1, s1));
          (base, error_if_nonzero) = detect_base s2;
          s3 = (if base \<noteq> 10
                then (case drop 2 s2 of
                        c # cs \<Rightarrow> if c = CHR ''_'' then cs else c # cs
                      | [] \<Rightarrow> [])
                else s2)
      in if take 1 s3 = ''_'' then None
         else
           let scanned = takeWhile (scan_char base) s3;
               rest = dropWhile (scan_char base) s3;
               ds = filter (\<lambda>c. c \<noteq> CHR ''_'') scanned;
               z = digits_value base ds
           in if \<not> underscores_ok scanned then None
              else if base = 10 \<and> 4300 < length ds then None
              else if error_if_nonzero \<and> z \<noteq> 0 then None
              else if scanned = [] then None
              else if dropWhile is_space rest \<noteq> [] then None
              else Some (sign * int z))"

section \<open>The probe: \<^verbatim>\<open>check-evm-rpc.py\<close>\<close>

text \<open>
  What \<^verbatim>\<open>requests.post\<close> gives back: no response at all (the call raises), or a
  response with its status code and its body, the body parsed as JSON where it parses.
\<close>

datatype http_result =
    NoResponse
  | Response nat "json option"

text \<open>The endpoint: which answer a request body posted to a URL gets.\<close>

type_synonym network = "string \<Rightarrow> json \<Rightarrow> http_result"

text \<open>
  What \<^verbatim>\<open>print\<close> writes: a line of text, or a value of the response (\<^verbatim>\<open>print(error)\<close>),
  kept as the value itself.
\<close>

datatype out = Line string | Payload json

text \<open>The effects of a run: the requests posted so far, with their URL, and the standard output.\<close>

record world =
  sent :: "(string \<times> json) list"
  stdout :: "out list"

definition print :: "out \<Rightarrow> world \<Rightarrow> world" where
  "print x w = w\<lparr>stdout := stdout w @ [x]\<rparr>"

definition ADDRESSES :: "(string \<times> string) list" where
  "ADDRESSES = [(''camelotv3'', ''0x22427d20480de289795ca29c3adddb57a568e285'')]"

record args =
  provider :: string
  endpoint :: string

text \<open>
  \<^verbatim>\<open>parse_args\<close>, from the two positional values on: argparse leaves with status 2
  on a provider outside \<^verbatim>\<open>choices\<close> (its usage message goes to standard error).
\<close>

definition choices :: "string list" where
  "choices = [''camelotv3'']"

definition parse_args :: "string \<Rightarrow> string \<Rightarrow> abort + args" where
  "parse_args p e =
     (if p \<in> set choices then Inr \<lparr>provider = p, endpoint = e\<rparr>
      else Inl (SystemExit 2))"

text \<open>\<^verbatim>\<open>d.get(k)\<close>: only a dict has the method; a missing key gives \<^verbatim>\<open>None\<close>.\<close>

fun get :: "json \<Rightarrow> string \<Rightarrow> abort + json" where
  "get (JObj kvs) k = (case map_of kvs k of None \<Rightarrow> Inr JNull | Some v \<Rightarrow> Inr v)"
| "get _ k = Inl AttributeError"

definition rpc_request :: "string \<Rightarrow> json \<Rightarrow> json" where
  "rpc_request method params =
     JObj [(''jsonrpc'', JStr ''2.0''), (''method'', JStr method),
           (''params'', params), (''id'', JInt 1)]"

definition rpc_call :: "network \<Rightarrow> string \<Rightarrow> string \<Rightarrow> json \<Rightarrow> world \<Rightarrow> (abort + json) \<times> world" where
  "rpc_call net ep method params w =
     (let data = rpc_request method params;
          w1 = w\<lparr>sent := sent w @ [(ep, data)]\<rparr>
      in case net ep data of
           NoResponse \<Rightarrow> (Inl ConnectionError, w1)
         | Response status body \<Rightarrow>
             if 400 \<le> status \<and> status < 600 then (Inl (HTTPError status), w1)
             else (case body of
                     None \<Rightarrow> (Inl JSONDecodeError, w1)
                   | Some d \<Rightarrow>
                       (case get d ''error'' of
                          Inl e \<Rightarrow> (Inl e, w1)
                        | Inr error \<Rightarrow>
                            if truthy error then (Inl (SystemExit 1), print (Payload error) w1)
                            else (get d ''result'', w1))))"

text \<open>\<^verbatim>\<open>int(height, 0)\<close>: a value that is not a str cannot be converted with a base.\<close>

fun int0 :: "json \<Rightarrow> abort + int" where
  "int0 (JStr s) = (case int_base0 s of None \<Rightarrow> Inl ValueError | Some i \<Rightarrow> Inr i)"
| "int0 _ = Inl TypeError"

definition get_height :: "network \<Rightarrow> string \<Rightarrow> world \<Rightarrow> (abort + int option) \<times> world" where
  "get_height net ep w =
     (case rpc_call net ep ''eth_blockNumber'' (JArr []) w of
        (Inl e, w1) \<Rightarrow> (Inl e, w1)
      | (Inr height, w1) \<Rightarrow>
          if \<not> truthy height then (Inr None, print (Line ''no height found'') w1)
          else (case int0 height of
                  Inl e \<Rightarrow> (Inl e, w1)
                | Inr h \<Rightarrow> (Inr (Some h), w1)))"

text \<open>
  \<^verbatim>\<open>get_logs\<close> receives what \<^verbatim>\<open>get_height\<close> and \<^verbatim>\<open>ADDRESSES.get\<close> returned, each
  of which may be \<^verbatim>\<open>None\<close>. \<^verbatim>\<open>None - 2000\<close> is a TypeError; a \<^verbatim>\<open>None\<close> address is
  sent as \<^verbatim>\<open>null\<close>.
\<close>

definition log_params :: "int \<Rightarrow> string option \<Rightarrow> json" where
  "log_params height address =
     JObj [(''fromBlock'', JStr (hex (height - 2000))),
           (''toBlock'', JStr (hex height)),
           (''address'', JArr [case address of None \<Rightarrow> JNull | Some a \<Rightarrow> JStr a]),
           (''topics'', JArr [])]"

definition get_logs :: "network \<Rightarrow> string \<Rightarrow> int option \<Rightarrow> string option \<Rightarrow> world \<Rightarrow> (abort + json) \<times> world" where
  "get_logs net ep height address w =
     (case height of
        None \<Rightarrow> (Inl TypeError, w)
      | Some h \<Rightarrow> rpc_call net ep ''eth_getLogs'' (JArr [log_params h address]) w)"

definition main :: "network \<Rightarrow> string \<Rightarrow> string \<Rightarrow> world \<Rightarrow> (abort + unit) \<times> world" where
  "main net p e w =
     (case parse_args p e of
        Inl x \<Rightarrow> (Inl x, w)
      | Inr a \<Rightarrow>
          (case get_height net (endpoint a) w of
             (Inl x, w1) \<Rightarrow> (Inl x, w1)
           | (Inr height, w1) \<Rightarrow>
               let address = map_of ADDRESSES (provider a);
                   w2 = (if address = None \<or> address = Some []
                         then print (Line (''no address found for provider '' @ provider a)) w1
                         else w1)
               in (case get_logs net (endpoint a) height address w2 of
                     (Inl x, w3) \<Rightarrow> (Inl x, w3)
                   | (Inr logs, w3) \<Rightarrow>
                       let w4 = (if logs = JNull then print (Line ''this shouldn't happen'') w3
                                 else w3)
                       in (Inr (), print (Line ''ok'') w4))))"

text \<open>A fresh run: nothing posted, nothing printed.\<close>

definition world0 :: world where
  "world0 = \<lparr>sent = [], stdout = []\<rparr>"

text \<open>The two request bodies of a run that got the height \<open>h\<close>.\<close>

definition height_request :: json where
  "height_request = rpc_request ''eth_blockNumber'' (JArr [])"

definition logs_request :: "int \<Rightarrow> json" where
  "logs_request h =
     rpc_request ''eth_getLogs''
       (JArr [log_params h (Some ''0x22427d20480de289795ca29c3adddb57a568e285'')])"

text \<open>
  The answers on which \<^verbatim>\<open>rpc_call\<close> returns the value \<open>v\<close>: a status that
  \<^verbatim>\<open>raise_for_status\<close> lets through, a body that is a JSON object, no truthy
  \<^verbatim>\<open>error\<close> in it, and \<open>v\<close> under \<^verbatim>\<open>result\<close> (\<^verbatim>\<open>None\<close> when the key is missing).
  Lemma \<open>rpc_call_returns_iff\<close> below shows that these are exactly those answers.
\<close>

fun returns :: "http_result \<Rightarrow> json \<Rightarrow> bool" where
  "returns (Response status (Some (JObj kvs))) v =
     (\<not> (400 \<le> status \<and> status < 600)
      \<and> \<not> truthy (case map_of kvs ''error'' of None \<Rightarrow> JNull | Some x \<Rightarrow> x)
      \<and> (case map_of kvs ''result'' of None \<Rightarrow> JNull | Some x \<Rightarrow> x) = v)"
| "returns _ v = False"

text \<open>
  A test endpoint: it gives the first answer to the \<^verbatim>\<open>eth_blockNumber\<close> request and
  the second answer to any other request.
\<close>

definition mock :: "http_result \<Rightarrow> http_result \<Rightarrow> network" where
  "mock r1 r2 ep req = (if req = height_request then r1 else r2)"

section \<open>The pair mapping: \<^verbatim>\<open>map-kraken-pairs.py\<close>\<close>

text \<open>\<^verbatim>\<open>s.split("/")\<close>: the pieces between the separators, at least one piece.\<close>

fun split_on :: "char \<Rightarrow> string \<Rightarrow> string list" where
  "split_on sep [] = [[]]"
| "split_on sep (c # cs) =
     (if c = sep then [] # split_on sep cs
      else (case split_on sep cs of
              p # ps \<Rightarrow> (c # p) # ps
            | [] \<Rightarrow> [[c]]))"

text \<open>
  One round of the loop over \<^verbatim>\<open>pairs.items()\<close>. \<^verbatim>\<open>pair["wsname"]\<close> is a TypeError
  on a value that is not a dict and a KeyError on a dict without the key;
  \<^verbatim>\<open>wsname.split\<close> needs a str; unpacking into \<^verbatim>\<open>base, quote\<close> needs two pieces.
  The assignment \<^verbatim>\<open>mapping[k] = v\<close> keeps the position of a key that is there and
  appends a new one.
\<close>

fun wsname_of :: "json \<Rightarrow> abort + json" where
  "wsname_of (JObj kvs) = (case map_of kvs ''wsname'' of None \<Rightarrow> Inl KeyError | Some v \<Rightarrow> Inr v)"
| "wsname_of _ = Inl TypeError"

fun split_wsname :: "json \<Rightarrow> abort + string \<times> string" where
  "split_wsname (JStr s) =
     (case split_on CHR ''/'' s of
        [base, quote] \<Rightarrow> Inr (base, quote)
      | _ \<Rightarrow> Inl ValueError)"
| "split_wsname _ = Inl AttributeError"

fun map_pairs :: "(string \<times> json) list \<Rightarrow> (string \<times> string) list \<Rightarrow> abort + (string \<times> string) list" where
  "map_pairs [] mapping = Inr mapping"
| "map_pairs ((symbol, pair) # rest) mapping =
     (case wsname_of pair of
        Inl e \<Rightarrow> Inl e
      | Inr wsname \<Rightarrow>
          (case split_wsname wsname of
             Inl e \<Rightarrow> Inl e
           | Inr (base, quote) \<Rightarrow>
               if base @ quote \<noteq> symbol
               then map_pairs rest (AList.update (base @ quote) symbol mapping)
               else map_pairs rest mapping))"

text \<open>\<^verbatim>\<open>data.get("result", {})\<close> and \<^verbatim>\<open>pairs.items()\<close>: both need a dict.\<close>

fun result_pairs :: "json \<Rightarrow> abort + (string \<times> json) list" where
  "result_pairs (JObj kvs) =
     (case map_of kvs ''result'' of
        None \<Rightarrow> Inr []
      | Some (JObj pairs) \<Rightarrow> Inr pairs
      | Some _ \<Rightarrow> Inl AttributeError)"
| "result_pairs _ = Inl AttributeError"

text \<open>
  The script's \<^verbatim>\<open>main\<close>, given the answer to its GET request. \<open>Inr None\<close> is the
  early return after \<^verbatim>\<open>logging.error\<close>; \<open>Inr (Some m)\<close> is the mapping handed to
  \<^verbatim>\<open>json.dumps\<close> and printed.
\<close>

definition kraken_main :: "http_result \<Rightarrow> abort + (string \<times> string) list option" where
  "kraken_main r =
     (case r of
        NoResponse \<Rightarrow> Inl ConnectionError
      | Response status body \<Rightarrow>
          if status \<noteq> 200 then Inr None
          else (case body of
                  None \<Rightarrow> Inl JSONDecodeError
                | Some data \<Rightarrow>
                    (case result_pairs data of
                       Inl e \<Rightarrow> Inl e
                     | Inr pairs \<Rightarrow>
                         (case map_pairs pairs [] of
                            Inl e \<Rightarrow> Inl e
                          | Inr m \<Rightarrow> Inr (Some m)))))"

section \<open>Encoding and decoding block heights\<close>

lemma hex_digits_table:
  "\<forall>d\<in>set [0..<16]. digit_value (hex_digit d) = d \<and> hex_digit d \<noteq> CHR ''_''"
  by code_simp

lemma hex_digit_value: "d < 16 \<Longrightarrow> digit_value (hex_digit d) = d"
  using hex_digits_table by simp

lemma hex_digit_plain: "d < 16 \<Longrightarrow> hex_digit d \<noteq> CHR ''_''"
  using hex_digits_table by simp

lemma hex_digit_scan: "d < 16 \<Longrightarrow> scan_char 16 (hex_digit d)"
  by (simp add: scan_char_def hex_digit_value)

lemma hex_nat_digits: "c \<in> set (hex_nat n) \<Longrightarrow> \<exists>d<16. c = hex_digit d"
proof (induction n rule: hex_nat.induct)
  case (1 n)
  show ?case
  proof (cases "n < 16")
    case True
    with "1.prems" show ?thesis by (auto simp: hex_nat.simps [of n])
  next
    case False
    with "1.prems" have "c \<in> set (hex_nat (n div 16)) \<or> c = hex_digit (n mod 16)"
      by (auto simp: hex_nat.simps [of n])
    then show ?thesis
    proof
      assume "c \<in> set (hex_nat (n div 16))"
      with False "1.IH" show ?thesis by simp
    next
      assume "c = hex_digit (n mod 16)"
      moreover have "n mod 16 < 16" by simp
      ultimately show ?thesis by blast
    qed
  qed
qed

lemma hex_nat_nonempty: "hex_nat n \<noteq> []"
  by (subst hex_nat.simps) simp

lemma digits_value_snoc: "digits_value b (ds @ [c]) = digits_value b ds * b + digit_value c"
  by (simp add: digits_value_def)

lemma digits_value_hex_nat: "digits_value 16 (hex_nat n) = n"
proof (induction n rule: hex_nat.induct)
  case (1 n)
  show ?case
  proof (cases "n < 16")
    case True
    then show ?thesis by (simp add: hex_nat.simps [of n] digits_value_def hex_digit_value)
  next
    case False
    then have "digits_value 16 (hex_nat n) = digits_value 16 (hex_nat (n div 16)) * 16 + digit_value (hex_digit (n mod 16))"
      by (simp add: hex_nat.simps [of n] digits_value_snoc)
    also have "\<dots> = n div 16 * 16 + n mod 16"
      using False "1.IH" by (simp add: hex_digit_value)
    finally show ?thesis by simp
  qed
qed

lemma underscores_ok_plain: "CHR ''_'' \<notin> set cs \<Longrightarrow> underscores_ok cs"
  by (induction cs rule: underscores_ok.induct) auto

lemma int_base0_prefixed:
  assumes ds: "ds \<noteq> []" and all: "\<And>c. c \<in> set ds \<Longrightarrow> scan_char 16 c \<and> c \<noteq> CHR ''_''"
  shows "int_base0 (''0x'' @ ds) = Some (int (digits_value 16 ds))"
    and "int_base0 (''-0x'' @ ds) = Some (- int (digits_value 16 ds))"
proof -
  obtain c cs where cons: "ds = c # cs" using ds by (cases ds) auto
  have c: "c \<noteq> CHR ''_''" using all [of c] cons by simp
  have tw: "takeWhile (scan_char 16) ds = ds" using all by (simp add: takeWhile_eq_all_conv)
  have dw: "dropWhile (scan_char 16) ds = []" using all by simp
  have fl: "filter (\<lambda>c. c \<noteq> CHR ''_'') ds = ds" using all by (simp add: filter_id_conv)
  have uo: "underscores_ok ds" using all by (intro underscores_ok_plain) blast
  have sp: "\<not> is_space CHR ''0''" "\<not> is_space CHR ''-''" by (simp_all add: is_space_def)
  show "int_base0 (''0x'' @ ds) = Some (int (digits_value 16 ds))"
    using c tw dw fl uo sp ds unfolding cons int_base0_def
    by (simp add: Let_def)
  show "int_base0 (''-0x'' @ ds) = Some (- int (digits_value 16 ds))"
    using c tw dw fl uo sp ds unfolding cons int_base0_def
    by (simp add: Let_def)
qed

lemma int_base0_hex: "int_base0 (hex n) = Some n"
proof -
  have ne: "hex_nat (nat \<bar>n\<bar>) \<noteq> []" by (rule hex_nat_nonempty)
  have all: "\<And>c. c \<in> set (hex_nat (nat \<bar>n\<bar>)) \<Longrightarrow> scan_char 16 c \<and> c \<noteq> CHR ''_''"
  proof -
    fix c assume "c \<in> set (hex_nat (nat \<bar>n\<bar>))"
    then obtain d where "d < 16" "c = hex_digit d" using hex_nat_digits by blast
    then show "scan_char 16 c \<and> c \<noteq> CHR ''_''"
      by (simp add: hex_digit_scan hex_digit_plain)
  qed
  show ?thesis
  proof (cases "n < 0")
    case True
    then have "hex n = ''-0x'' @ hex_nat (nat \<bar>n\<bar>)" by (simp add: hex_def)
    then show ?thesis using int_base0_prefixed(2) [OF ne all] True
      by (simp add: digits_value_hex_nat)
  next
    case False
    then have "hex n = ''0x'' @ hex_nat (nat \<bar>n\<bar>)" by (simp add: hex_def)
    then show ?thesis using int_base0_prefixed(1) [OF ne all] False
      by (simp add: digits_value_hex_nat)
  qed
qed

section \<open>Properties of the calls\<close>

lemma rpc_call_sent:
  "sent (snd (rpc_call net ep m ps w)) = sent w @ [(ep, rpc_request m ps)]"
  by (cases "net ep (rpc_request m ps)")
     (auto simp: rpc_call_def Let_def print_def split: option.splits sum.splits)

lemma rpc_call_returns:
  "returns (net ep (rpc_request m ps)) v \<Longrightarrow>
   rpc_call net ep m ps w = (Inr v, w\<lparr>sent := sent w @ [(ep, rpc_request m ps)]\<rparr>)"
  by (cases "(net ep (rpc_request m ps), v)" rule: returns.cases)
     (auto simp: rpc_call_def Let_def split: option.splits)

lemma rpc_call_returns_iff:
  "fst (rpc_call net ep m ps w) = Inr v \<longleftrightarrow> returns (net ep (rpc_request m ps)) v"
  by (cases "(net ep (rpc_request m ps), v)" rule: returns.cases)
     (auto simp: rpc_call_def Let_def split: option.splits)

lemma rpc_call_error:
  assumes "net ep (rpc_request m ps) = Response st (Some (JObj kvs))"
    and "\<not> (400 \<le> st \<and> st < 600)" and "map_of kvs ''error'' = Some err" and "truthy err"
  shows "rpc_call net ep m ps w =
         (Inl (SystemExit 1), w\<lparr>sent := sent w @ [(ep, rpc_request m ps)],
                                 stdout := stdout w @ [Payload err]\<rparr>)"
  using assms by (simp add: rpc_call_def Let_def print_def)

lemma int_base0_Nil: "int_base0 [] = None"
  by (simp add: int_base0_def)

lemma get_height_decoded:
  assumes "returns (net e height_request) (JStr s)" and "int_base0 s = Some h"
  shows "get_height net e w = (Inr (Some h), w\<lparr>sent := sent w @ [(e, height_request)]\<rparr>)"
proof -
  have "s \<noteq> []" using assms(2) int_base0_Nil by auto
  then show ?thesis
    using assms rpc_call_returns [of net e "''eth_blockNumber''" "JArr []" "JStr s" w]
    by (simp add: get_height_def height_request_def)
qed

lemma get_height_missing:
  assumes "returns (net e height_request) v" and "\<not> truthy v"
  shows "get_height net e w =
         (Inr None, w\<lparr>sent := sent w @ [(e, height_request)], stdout := stdout w @ [Line ''no height found'']\<rparr>)"
  using assms rpc_call_returns [of net e "''eth_blockNumber''" "JArr []" v w]
  by (simp add: get_height_def height_request_def print_def)

lemma address_known:
  "p \<in> set choices \<Longrightarrow> map_of ADDRESSES p = Some ''0x22427d20480de289795ca29c3adddb57a568e285''"
  by (simp add: choices_def ADDRESSES_def)

lemma main_after_height:
  assumes "p \<in> set choices"
    and "get_height net e w = (Inr (Some h), w1)"
  shows "main net p e w =
    (case rpc_call net e ''eth_getLogs'' (JArr [log_params h (Some ''0x22427d20480de289795ca29c3adddb57a568e285'')]) w1 of
       (Inl x, w3) \<Rightarrow> (Inl x, w3)
     | (Inr logs, w3) \<Rightarrow>
         (Inr (), print (Line ''ok'') (if logs = JNull then print (Line ''this shouldn't happen'') w3 else w3)))"
  using assms
  by (simp add: main_def parse_args_def address_known get_logs_def Let_def
           split: prod.splits sum.splits)

lemma main_logs_returned:
  assumes "p \<in> set choices"
    and "returns (net e height_request) (JStr s)" and "int_base0 s = Some h"
    and "returns (net e (logs_request h)) v"
  shows "main net p e w =
         (Inr (), w\<lparr>sent := sent w @ [(e, height_request), (e, logs_request h)],
                    stdout := stdout w @ (if v = JNull then [Line ''this shouldn't happen''] else [])
                                @ [Line ''ok'']\<rparr>)"
proof -
  let ?w1 = "w\<lparr>sent := sent w @ [(e, height_request)]\<rparr>"
  have h: "get_height net e w = (Inr (Some h), ?w1)"
    using assms(2,3) by (rule get_height_decoded)
  have l: "rpc_call net e ''eth_getLogs''
             (JArr [log_params h (Some ''0x22427d20480de289795ca29c3adddb57a568e285'')]) ?w1 =
           (Inr v, ?w1\<lparr>sent := sent ?w1 @ [(e, logs_request h)]\<rparr>)"
    using assms(4) rpc_call_returns [of net e "''eth_getLogs''" _ v ?w1]
    by (simp add: logs_request_def)
  show ?thesis
    by (simp add: main_after_height [OF assms(1) h] l print_def)
qed

lemma decode_0x1388: "int_base0 ''0x1388'' = Some 5000"
  by code_simp

lemma camelotv3_choice: "''camelotv3'' \<in> set choices"
  by (simp add: choices_def)

lemma mock_height: "mock r1 r2 ep height_request = r1"
  by (simp add: mock_def)

lemma mock_logs: "mock r1 r2 ep (logs_request h) = r2"
  by (simp add: mock_def height_request_def logs_request_def rpc_request_def)

lemma main_logs_abort:
  assumes "p \<in> set choices"
    and "returns (net e height_request) (JStr s)" and "int_base0 s = Some h"
    and "fst (rpc_call net e ''eth_getLogs''
               (JArr [log_params h (Some ''0x22427d20480de289795ca29c3adddb57a568e285'')])
               (w\<lparr>sent := sent w @ [(e, height_request)]\<rparr>)) = Inl x"
  shows "main net p e w =
         (Inl x, snd (rpc_call net e ''eth_getLogs''
               (JArr [log_params h (Some ''0x22427d20480de289795ca29c3adddb57a568e285'')])
               (w\<lparr>sent := sent w @ [(e, height_request)]\<rparr>)))"
proof -
  let ?w1 = "w\<lparr>sent := sent w @ [(e, height_request)]\<rparr>"
  have h: "get_height net e w = (Inr (Some h), ?w1)"
    using assms(2,3) by (rule get_height_decoded)
  obtain r w3 where rc: "rpc_call net e ''eth_getLogs''
               (JArr [log_params h (Some ''0x22427d20480de289795ca29c3adddb57a568e285'')]) ?w1 = (r, w3)"
    by (cases "rpc_call net e ''eth_getLogs''
               (JArr [log_params h (Some ''0x22427d20480de289795ca29c3adddb57a568e285'')]) ?w1")
  with assms(4) have "r = Inl x" by simp
  with rc show ?thesis
    by (simp add: main_after_height [OF assms(1) h])
qed

lemma main_unknown: "p \<notin> set choices \<Longrightarrow> main net p e w = (Inl (SystemExit 2), w)"
  by (simp add: main_def parse_args_def)

lemma main_ok_last:
  "fst (main net p e w) = Inr () \<Longrightarrow> last (stdout (snd (main net p e w))) = Line ''ok''"
  by (auto simp: main_def Let_def print_def split: sum.splits prod.splits)

lemma hex_5000: "hex 5000 = ''0x1388''"
  by code_simp

lemma hex_3000: "hex 3000 = ''0xbb8''"
  by code_simp

lemma main_height_missing:
  assumes "p \<in> set choices" and "returns (net e height_request) v" and "\<not> truthy v"
  shows "main net p e w =
         (Inl TypeError, w\<lparr>sent := sent w @ [(e, height_request)],
                           stdout := stdout w @ [Line ''no height found'']\<rparr>)"
  using assms(1) get_height_missing [where net = net and e = e and w = w, OF assms(2,3)]
  by (simp add: main_def parse_args_def address_known get_logs_def Let_def)

lemma get_exit: "get d k \<noteq> Inl (SystemExit 1)"
  by (cases d) (auto split: option.splits)

lemma rpc_call_exit_1:
  "fst (rpc_call net ep m ps w) = Inl (SystemExit 1) \<Longrightarrow>
   \<exists>err. truthy err \<and> last (stdout (snd (rpc_call net ep m ps w))) = Payload err"
  by (cases "net ep (rpc_request m ps)")
     (auto simp: rpc_call_def Let_def print_def get_exit split: option.splits sum.splits if_splits)

lemma int0_exit: "int0 b \<noteq> Inl (SystemExit 1)"
  by (cases b) (auto split: option.splits)

lemma main_exit_1:
  assumes "fst (main net p e w) = Inl (SystemExit 1)"
  shows "\<exists>err. truthy err \<and> last (stdout (snd (main net p e w))) = Payload err"
proof -
  from assms have p: "p \<in> set choices"
    by (auto simp: main_def parse_args_def split: if_splits)
  obtain r1 w1 where h: "get_height net e w = (r1, w1)" by (cases "get_height net e w")
  show ?thesis
  proof (cases r1)
    case (Inl x)
    with assms p h have x: "x = SystemExit 1" and m: "main net p e w = (Inl x, w1)"
      by (auto simp: main_def parse_args_def)
    obtain r0 w0 where c: "rpc_call net e ''eth_blockNumber'' (JArr []) w = (r0, w0)"
      by (cases "rpc_call net e ''eth_blockNumber'' (JArr []) w")
    from h Inl x c have "r0 = Inl (SystemExit 1) \<and> w0 = w1"
      by (cases r0) (auto simp: get_height_def int0_exit split: if_splits sum.splits)
    with c rpc_call_exit_1 [of net e "''eth_blockNumber''" "JArr []" w] m
    show ?thesis by simp
  next
    case (Inr height)
    show ?thesis
    proof (cases height)
      case None
      with assms p h Inr show ?thesis
        by (simp add: main_def parse_args_def address_known get_logs_def Let_def)
    next
      case (Some hh)
      with h Inr have hd: "get_height net e w = (Inr (Some hh), w1)" by simp
      let ?c = "rpc_call net e ''eth_getLogs''
                 (JArr [log_params hh (Some ''0x22427d20480de289795ca29c3adddb57a568e285'')]) w1"
      obtain r2 w2 where c: "?c = (r2, w2)" by (cases ?c)
      with assms main_after_height [OF p hd] have "r2 = Inl (SystemExit 1)"
        by (cases r2) auto
      with c rpc_call_exit_1 [of net e "''eth_getLogs''"
          "JArr [log_params hh (Some ''0x22427d20480de289795ca29c3adddb57a568e285'')]" w1]
        main_after_height [OF p hd]
      show ?thesis by simp
    qed
  qed
qed

lemma main_height_error:
  assumes "p \<in> set choices"
    and "net e height_request = Response st (Some (JObj kvs))"
    and "\<not> (400 \<le> st \<and> st < 600)"
    and "map_of kvs ''error'' = Some err"
    and "truthy err"
  shows "main net p e w =
         (Inl (SystemExit 1),
          w\<lparr>sent := sent w @ [(e, height_request)], stdout := stdout w @ [Payload err]\<rparr>)"
  using assms(1) rpc_call_error [of net e "''eth_blockNumber''" "JArr []" st kvs err w] assms(2-5)
  by (simp add: main_def parse_args_def get_height_def height_request_def)

lemma main_sent:
  assumes "p \<in> set choices"
    and "returns (net e height_request) (JStr s)" and "int_base0 s = Some h"
  shows "sent (snd (main net p e w)) = sent w @ [(e, height_request), (e, logs_request h)]"
proof -
  let ?w1 = "w\<lparr>sent := sent w @ [(e, height_request)]\<rparr>"
  let ?c = "rpc_call net e ''eth_getLogs''
              (JArr [log_params h (Some ''0x22427d20480de289795ca29c3adddb57a568e285'')]) ?w1"
  have h: "get_height net e w = (Inr (Some h), ?w1)"
    using assms(2,3) by (rule get_height_decoded)
  obtain r w3 where c: "?c = (r, w3)" by (cases ?c)
  have "sent w3 = sent ?w1 @ [(e, logs_request h)]"
    using rpc_call_sent [of net e "''eth_getLogs''"
        "JArr [log_params h (Some ''0x22427d20480de289795ca29c3adddb57a568e285'')]" ?w1] c
    by (simp add: logs_request_def)
  then show ?thesis
    using c by (cases r) (simp_all add: main_after_height [OF assms(1) h] print_def)
qed

lemma rpc_call_no_response:
  "net ep (rpc_request m ps) = NoResponse \<Longrightarrow>
   rpc_call net ep m ps w = (Inl ConnectionError, w\<lparr>sent := sent w @ [(ep, rpc_request m ps)]\<rparr>)"
  by (simp add: rpc_call_def Let_def)

lemma rpc_call_http_error:
  "net ep (rpc_request m ps) = Response st body \<Longrightarrow> 400 \<le> st \<Longrightarrow> st < 600 \<Longrightarrow>
   rpc_call net ep m ps w = (Inl (HTTPError st), w\<lparr>sent := sent w @ [(ep, rpc_request m ps)]\<rparr>)"
  by (simp add: rpc_call_def Let_def)

lemma main_logs_failed:
  assumes "p \<in> set choices"
    and "returns (net e height_request) (JStr s)" and "int_base0 s = Some h"
    and "rpc_call net e ''eth_getLogs''
               (JArr [log_params h (Some ''0x22427d20480de289795ca29c3adddb57a568e285'')])
               (w\<lparr>sent := sent w @ [(e, height_request)]\<rparr>) = (Inl x, w3)"
  shows "main net p e w = (Inl x, w3)"
  using main_logs_abort [where net = net and e = e and w = w and x = x, OF assms(1-3)] assms(4)
  by simp

lemma mock_request: "mock r1 r2 ep (rpc_request ''eth_blockNumber'' (JArr [])) = r1"
  by (simp add: mock_def height_request_def)

section \<open>Properties of the pair mapping\<close>

lemma update_entries: "set (AList.update k v al) \<subseteq> insert (k, v) (set al)"
  by (induction al) auto

lemma map_pairs_no_identity:
  "map_pairs ps m0 = Inr m \<Longrightarrow> \<forall>(k, v)\<in>set m0. k \<noteq> v \<Longrightarrow> \<forall>(k, v)\<in>set m. k \<noteq> v"
proof (induction ps arbitrary: m0)
  case Nil
  then show ?case by simp
next
  case (Cons a ps)
  obtain symbol pair where a: "a = (symbol, pair)" by (cases a)
  from Cons.prems(1) a obtain wsname where w: "wsname_of pair = Inr wsname"
    by (cases "wsname_of pair") auto
  from Cons.prems(1) a w obtain base quote where s: "split_wsname wsname = Inr (base, quote)"
    by (cases "split_wsname wsname") auto
  show ?case
  proof (cases "base @ quote = symbol")
    case True
    with Cons.prems(1) a w s have "map_pairs ps m0 = Inr m" by simp
    with Cons.IH Cons.prems(2) show ?thesis by blast
  next
    case False
    with Cons.prems(1) a w s
    have r: "map_pairs ps (AList.update (base @ quote) symbol m0) = Inr m" by simp
    have "\<forall>(k, v)\<in>set (AList.update (base @ quote) symbol m0). k \<noteq> v"
      using update_entries [of "base @ quote" symbol m0] Cons.prems(2) False by auto
    with Cons.IH r show ?thesis by blast
  qed
qed

section \<open>The claims about the probe\<close>

text \<open>
  Claim C1, as stated: a height response that contains an \<^verbatim>\<open>error\<close> field makes the
  probe fail without a logs call. \<^verbatim>\<open>rpc_call\<close> tests the truth value of the field,
  not its presence: with \<^verbatim>\<open>"error": null\<close> beside a result, the run goes on, posts the
  \<^verbatim>\<open>eth_getLogs\<close> request and prints \<^verbatim>\<open>ok\<close>.
\<close>

theorem error_field_null_counterexample:
  "map_of [(''error'', JNull), (''result'', JStr ''0x1388'')] ''error'' = Some JNull
   \<and> main (mock (Response 200 (Some (JObj [(''error'', JNull), (''result'', JStr ''0x1388'')])))
                 (Response 200 (Some (JObj [(''result'', JArr [])]))))
          ''camelotv3'' ''http://rpc'' world0
       = (Inr (), \<lparr>sent = [(''http://rpc'', height_request), (''http://rpc'', logs_request 5000)],
                   stdout = [Line ''ok'']\<rparr>)"
  using main_logs_returned [where net = "mock (Response 200 (Some (JObj [(''error'', JNull), (''result'', JStr ''0x1388'')])))
                 (Response 200 (Some (JObj [(''result'', JArr [])])))" and e = "''http://rpc''" and w = world0
                 and v = "JArr []", OF camelotv3_choice _ decode_0x1388]
  by (simp add: mock_height mock_logs world0_def)

text \<open>
  Claim C1, amended: if the height response passes \<^verbatim>\<open>raise_for_status\<close>, is a JSON
  object and carries a truthy \<^verbatim>\<open>error\<close> field, the run prints that error value and
  leaves through \<^verbatim>\<open>sys.exit(1)\<close>; the \<^verbatim>\<open>eth_blockNumber\<close> request is the only one
  posted.
\<close>

theorem height_error_exits:
  assumes "p \<in> set choices"
    and "net e height_request = Response st (Some (JObj kvs))"
    and "\<not> (400 \<le> st \<and> st < 600)"
    and "map_of kvs ''error'' = Some err"
    and "truthy err"
  shows "main net p e w =
         (Inl (SystemExit 1),
          w\<lparr>sent := sent w @ [(e, height_request)], stdout := stdout w @ [Payload err]\<rparr>)"
  using assms by (rule main_height_error)

theorem height_error_exits_witness:
  "''camelotv3'' \<in> set choices
   \<and> mock (Response 200 (Some (JObj [(''error'', JObj [(''code'', JInt (- 32000)), (''message'', JStr ''x'')])])))
          NoResponse ''http://rpc'' height_request
       = Response 200 (Some (JObj [(''error'', JObj [(''code'', JInt (- 32000)), (''message'', JStr ''x'')])]))
   \<and> \<not> (400 \<le> (200::nat) \<and> (200::nat) < 600)
   \<and> map_of [(''error'', JObj [(''code'', JInt (- 32000)), (''message'', JStr ''x'')])] ''error''
       = Some (JObj [(''code'', JInt (- 32000)), (''message'', JStr ''x'')])
   \<and> truthy (JObj [(''code'', JInt (- 32000)), (''message'', JStr ''x'')])
   \<and> main (mock (Response 200 (Some (JObj [(''error'', JObj [(''code'', JInt (- 32000)), (''message'', JStr ''x'')])])))
                 NoResponse)
          ''camelotv3'' ''http://rpc'' world0
       = (Inl (SystemExit 1),
          \<lparr>sent = [(''http://rpc'', height_request)],
           stdout = [Payload (JObj [(''code'', JInt (- 32000)), (''message'', JStr ''x'')])]\<rparr>)"
proof -
  let ?err = "JObj [(''code'', JInt (- 32000)), (''message'', JStr ''x'')]"
  let ?net = "mock (Response 200 (Some (JObj [(''error'', ?err)]))) NoResponse"
  have p: "''camelotv3'' \<in> set choices" by (simp add: choices_def)
  have r: "?net ''http://rpc'' height_request = Response 200 (Some (JObj [(''error'', ?err)]))"
    by (rule mock_height)
  have st: "\<not> (400 \<le> (200::nat) \<and> (200::nat) < 600)" by simp
  have m: "map_of [(''error'', ?err)] ''error'' = Some ?err" by simp
  have t: "truthy ?err" by simp
  from height_error_exits [where net = ?net and e = "''http://rpc''" and w = world0, OF p r st m t]
    p r st m t
  show ?thesis by (simp add: world0_def)
qed

text \<open>
  Claim C2, as stated: apart from the \<^verbatim>\<open>error\<close> case, every failure path (unknown
  provider, missing height, null logs) prints a message and then \<^verbatim>\<open>ok\<close>, and the run
  ends normally. A height response with an empty result prints \<^verbatim>\<open>no height found\<close>
  and the run then dies of a TypeError in \<^verbatim>\<open>get_logs\<close>, with no \<^verbatim>\<open>ok\<close>; a provider
  outside \<^verbatim>\<open>choices\<close> is turned away by argparse with status 2, with nothing printed
  to standard output.
\<close>

theorem fall_through_counterexample:
  "main (mock (Response 200 (Some (JObj [(''result'', JStr [])]))) NoResponse)
         ''camelotv3'' ''http://rpc'' world0
     = (Inl TypeError,
        \<lparr>sent = [(''http://rpc'', height_request)], stdout = [Line ''no height found'']\<rparr>)
   \<and> main (mock NoResponse NoResponse) ''uniswapv3'' ''http://rpc'' world0
     = (Inl (SystemExit 2), \<lparr>sent = [], stdout = []\<rparr>)"
proof -
  have "''uniswapv3'' \<notin> set choices" by (simp add: choices_def)
  then have "main (mock NoResponse NoResponse) ''uniswapv3'' ''http://rpc'' world0
             = (Inl (SystemExit 2), world0)"
    by (rule main_unknown)
  moreover have "main (mock (Response 200 (Some (JObj [(''result'', JStr [])]))) NoResponse)
         ''camelotv3'' ''http://rpc'' world0
     = (Inl TypeError,
        \<lparr>sent = [(''http://rpc'', height_request)], stdout = [Line ''no height found'']\<rparr>)"
    using main_height_missing [where net = "mock (Response 200 (Some (JObj [(''result'', JStr [])]))) NoResponse"
         and e = "''http://rpc''" and w = world0 and v = "JStr []", OF camelotv3_choice]
    by (simp add: mock_height world0_def)
  ultimately show ?thesis by (simp add: world0_def)
qed

text \<open>
  Claim C2, amended: a provider outside \<^verbatim>\<open>choices\<close> ends the run in
  \<^verbatim>\<open>parse_args\<close> with status 2, before any request and with nothing on standard
  output; a null logs result prints \<^verbatim>\<open>this shouldn't happen\<close> and then \<^verbatim>\<open>ok\<close>, and
  the run ends normally; every run that ends normally has printed \<^verbatim>\<open>ok\<close> last; and
  a run that leaves through \<^verbatim>\<open>sys.exit(1)\<close> has printed a truthy \<^verbatim>\<open>error\<close> value last.
\<close>

theorem failure_paths:
  "(p \<notin> set choices \<longrightarrow> main net p e w = (Inl (SystemExit 2), w))
   \<and> (p \<in> set choices \<and> returns (net e height_request) (JStr s) \<and> int_base0 s = Some h
        \<and> returns (net e (logs_request h)) JNull \<longrightarrow>
      main net p e w =
        (Inr (), w\<lparr>sent := sent w @ [(e, height_request), (e, logs_request h)],
                   stdout := stdout w @ [Line ''this shouldn't happen'', Line ''ok'']\<rparr>))
   \<and> (fst (main net p e w) = Inr () \<longrightarrow> last (stdout (snd (main net p e w))) = Line ''ok'')
   \<and> (fst (main net p e w) = Inl (SystemExit 1) \<longrightarrow>
        (\<exists>err. truthy err \<and> last (stdout (snd (main net p e w))) = Payload err))"
  using main_unknown [of p net e w] main_logs_returned [of p net e s h JNull w]
    main_ok_last [of net p e w] main_exit_1 [of net p e w]
  by simp

theorem failure_paths_witness:
  "''uniswapv3'' \<notin> set choices
   \<and> main (mock NoResponse NoResponse) ''uniswapv3'' ''http://rpc'' world0 = (Inl (SystemExit 2), world0)
   \<and> ''camelotv3'' \<in> set choices
   \<and> returns (mock (Response 200 (Some (JObj [(''result'', JStr ''0x1388'')])))
                    (Response 200 (Some (JObj [(''result'', JNull)])))
                ''http://rpc'' height_request) (JStr ''0x1388'')
   \<and> int_base0 ''0x1388'' = Some 5000
   \<and> returns (mock (Response 200 (Some (JObj [(''result'', JStr ''0x1388'')])))
                    (Response 200 (Some (JObj [(''result'', JNull)])))
                ''http://rpc'' (logs_request 5000)) JNull
   \<and> main (mock (Response 200 (Some (JObj [(''result'', JStr ''0x1388'')])))
                 (Response 200 (Some (JObj [(''result'', JNull)]))))
          ''camelotv3'' ''http://rpc'' world0
       = (Inr (), \<lparr>sent = [(''http://rpc'', height_request), (''http://rpc'', logs_request 5000)],
                   stdout = [Line ''this shouldn't happen'', Line ''ok'']\<rparr>)
   \<and> last (stdout (snd (main (mock (Response 200 (Some (JObj [(''result'', JStr ''0x1388'')])))
                 (Response 200 (Some (JObj [(''result'', JNull)]))))
          ''camelotv3'' ''http://rpc'' world0))) = Line ''ok''
   \<and> fst (main (mock (Response 200 (Some (JObj [(''error'', JStr ''busy'')]))) NoResponse)
             ''camelotv3'' ''http://rpc'' world0) = Inl (SystemExit 1)
   \<and> (\<exists>err. truthy err
        \<and> last (stdout (snd (main (mock (Response 200 (Some (JObj [(''error'', JStr ''busy'')]))) NoResponse)
             ''camelotv3'' ''http://rpc'' world0))) = Payload err)"
proof -
  let ?net = "mock (Response 200 (Some (JObj [(''result'', JStr ''0x1388'')])))
                   (Response 200 (Some (JObj [(''result'', JNull)])))"
  let ?bad = "mock (Response 200 (Some (JObj [(''error'', JStr ''busy'')]))) NoResponse"
  have u: "''uniswapv3'' \<notin> set choices" by (simp add: choices_def)
  have r1: "returns (?net ''http://rpc'' height_request) (JStr ''0x1388'')"
    by (simp add: mock_height)
  have r2: "returns (?net ''http://rpc'' (logs_request 5000)) JNull"
    by (simp add: mock_logs)
  from failure_paths [where net = "mock NoResponse NoResponse" and p = "''uniswapv3''"
        and e = "''http://rpc''" and w = world0] u
  have a: "main (mock NoResponse NoResponse) ''uniswapv3'' ''http://rpc'' world0 = (Inl (SystemExit 2), world0)"
    by simp
  from failure_paths [where net = ?net and p = "''camelotv3''" and e = "''http://rpc''"
        and w = world0 and s = "''0x1388''" and h = 5000] camelotv3_choice r1 r2 decode_0x1388
  have b: "main ?net ''camelotv3'' ''http://rpc'' world0
       = (Inr (), \<lparr>sent = [(''http://rpc'', height_request), (''http://rpc'', logs_request 5000)],
                   stdout = [Line ''this shouldn't happen'', Line ''ok'']\<rparr>)"
    by (simp add: world0_def)
  have x: "fst (main ?bad ''camelotv3'' ''http://rpc'' world0) = Inl (SystemExit 1)"
    using main_height_error [where net = ?bad and e = "''http://rpc''" and w = world0
        and st = 200 and kvs = "[(''error'', JStr ''busy'')]" and err = "JStr ''busy''",
        OF camelotv3_choice mock_height]
    by simp
  from failure_paths [where net = ?bad and p = "''camelotv3''" and e = "''http://rpc''"
        and w = world0] x
  have c: "\<exists>err. truthy err
        \<and> last (stdout (snd (main ?bad ''camelotv3'' ''http://rpc'' world0))) = Payload err"
    by simp
  from a b c x u camelotv3_choice r1 r2 decode_0x1388 show ?thesis by simp
qed

text \<open>
  Claim C3: a height response with an empty result should end the probe at once, with an
  outcome of its own. The run at such a response: \<^verbatim>\<open>get_height\<close> prints
  \<^verbatim>\<open>no height found\<close> and returns \<^verbatim>\<open>None\<close>; \<^verbatim>\<open>main\<close> does not test it and calls
  \<^verbatim>\<open>get_logs\<close> with it, where \<^verbatim>\<open>None - 2000\<close> raises a TypeError.
\<close>

theorem missing_height_run:
  "main (mock (Response 200 (Some (JObj [(''jsonrpc'', JStr ''2.0''), (''id'', JInt 1), (''result'', JNull)])))
              (Response 200 (Some (JObj [(''jsonrpc'', JStr ''2.0''), (''id'', JInt 1), (''result'', JArr [])]))))
         ''camelotv3'' ''http://rpc'' world0
   = (Inl TypeError,
      \<lparr>sent = [(''http://rpc'', height_request)], stdout = [Line ''no height found'']\<rparr>)"
  using main_height_missing [where net = "mock (Response 200 (Some (JObj [(''jsonrpc'', JStr ''2.0''), (''id'', JInt 1), (''result'', JNull)])))
              (Response 200 (Some (JObj [(''jsonrpc'', JStr ''2.0''), (''id'', JInt 1), (''result'', JArr [])])))"
         and e = "''http://rpc''" and w = world0 and v = JNull, OF camelotv3_choice]
  by (simp add: mock_height world0_def)

text \<open>
  Claim C4: for every height \<open>h\<close> that \<^verbatim>\<open>get_height\<close> decodes, the run posts the
  \<^verbatim>\<open>eth_getLogs\<close> request with the parameters \<^verbatim>\<open>fromBlock = hex(h - 2000)\<close>,
  \<^verbatim>\<open>toBlock = hex(h)\<close>, \<^verbatim>\<open>address = [address]\<close> and \<^verbatim>\<open>topics = []\<close>, right after the
  \<^verbatim>\<open>eth_blockNumber\<close> request; for \<open>h = 5000\<close> the two bounds are \<^verbatim>\<open>0xbb8\<close> and
  \<^verbatim>\<open>0x1388\<close>. Both posted bodies are written out in full, with \<^verbatim>\<open>jsonrpc\<close>,
  \<^verbatim>\<open>method\<close>, \<^verbatim>\<open>params\<close> and \<^verbatim>\<open>id\<close>.
\<close>

theorem logs_window:
  assumes "p \<in> set choices"
    and "returns (net e (JObj [(''jsonrpc'', JStr ''2.0''), (''method'', JStr ''eth_blockNumber''),
                               (''params'', JArr []), (''id'', JInt 1)])) (JStr s)"
    and "int_base0 s = Some h"
  shows "sent (snd (main net p e w)) =
           sent w @ [(e, JObj [(''jsonrpc'', JStr ''2.0''), (''method'', JStr ''eth_blockNumber''),
                               (''params'', JArr []), (''id'', JInt 1)]),
                     (e, JObj [(''jsonrpc'', JStr ''2.0''), (''method'', JStr ''eth_getLogs''),
                               (''params'',
                                  JArr [JObj [(''fromBlock'', JStr (hex (h - 2000))),
                                              (''toBlock'', JStr (hex h)),
                                              (''address'', JArr [JStr ''0x22427d20480de289795ca29c3adddb57a568e285'']),
                                              (''topics'', JArr [])]]),
                               (''id'', JInt 1)])]
         \<and> hex (5000 - 2000) = ''0xbb8'' \<and> hex 5000 = ''0x1388''"
proof -
  have r: "returns (net e height_request) (JStr s)"
    using assms(2) by (simp add: height_request_def rpc_request_def)
  from main_sent [where net = net and e = e and w = w, OF assms(1) r assms(3)] hex_3000 hex_5000
  show ?thesis
    by (simp add: height_request_def logs_request_def log_params_def rpc_request_def)
qed

theorem logs_window_witness:
  "''camelotv3'' \<in> set choices
   \<and> returns (mock (Response 200 (Some (JObj [(''result'', JStr ''0x1388'')])))
                    (Response 200 (Some (JObj [(''result'', JArr [])])))
                ''http://rpc''
                (JObj [(''jsonrpc'', JStr ''2.0''), (''method'', JStr ''eth_blockNumber''),
                       (''params'', JArr []), (''id'', JInt 1)])) (JStr ''0x1388'')
   \<and> int_base0 ''0x1388'' = Some 5000
   \<and> sent (snd (main (mock (Response 200 (Some (JObj [(''result'', JStr ''0x1388'')])))
                            (Response 200 (Some (JObj [(''result'', JArr [])]))))
                     ''camelotv3'' ''http://rpc'' world0))
       = [(''http://rpc'',
           JObj [(''jsonrpc'', JStr ''2.0''), (''method'', JStr ''eth_blockNumber''),
                 (''params'', JArr []), (''id'', JInt 1)]),
          (''http://rpc'',
           JObj [(''jsonrpc'', JStr ''2.0''), (''method'', JStr ''eth_getLogs''),
                 (''params'',
                    JArr [JObj [(''fromBlock'', JStr ''0xbb8''),
                                (''toBlock'', JStr ''0x1388''),
                                (''address'', JArr [JStr ''0x22427d20480de289795ca29c3adddb57a568e285'']),
                                (''topics'', JArr [])]]),
                 (''id'', JInt 1)])]"
proof -
  let ?net = "mock (Response 200 (Some (JObj [(''result'', JStr ''0x1388'')])))
                   (Response 200 (Some (JObj [(''result'', JArr [])])))"
  have r: "returns (?net ''http://rpc''
                (JObj [(''jsonrpc'', JStr ''2.0''), (''method'', JStr ''eth_blockNumber''),
                       (''params'', JArr []), (''id'', JInt 1)])) (JStr ''0x1388'')"
    by (simp add: mock_def height_request_def rpc_request_def)
  from logs_window [where net = ?net and e = "''http://rpc''" and w = world0,
      OF camelotv3_choice r decode_0x1388] r camelotv3_choice decode_0x1388
  show ?thesis by (simp add: world0_def hex_5000 hex_3000)
qed

text \<open>
  Claim C5: for a height \<open>h\<close> with \<open>0 \<le> h < 2000\<close>, \<^verbatim>\<open>hex(h - 2000)\<close> is the
  encoding of a negative integer (a minus sign before \<^verbatim>\<open>0x\<close>), and \<^verbatim>\<open>get_logs\<close>
  posts the \<^verbatim>\<open>eth_getLogs\<close> request whose \<^verbatim>\<open>fromBlock\<close> is that string: the body
  posted is written out below. No test stands before the call: \<^verbatim>\<open>get_logs\<close> is the
  call itself, and it returns whatever the endpoint gives as the result.
\<close>

theorem negative_from_block:
  assumes "0 \<le> h" and "h < 2000"
  shows "hex (h - 2000) = ''-0x'' @ hex_nat (nat (2000 - h))
         \<and> sent (snd (get_logs net e (Some h) a w)) =
             sent w @ [(e, JObj [(''jsonrpc'', JStr ''2.0''), (''method'', JStr ''eth_getLogs''),
                                 (''params'',
                                    JArr [JObj [(''fromBlock'', JStr (''-0x'' @ hex_nat (nat (2000 - h)))),
                                                (''toBlock'', JStr (hex h)),
                                                (''address'', JArr [case a of None \<Rightarrow> JNull | Some x \<Rightarrow> JStr x]),
                                                (''topics'', JArr [])]]),
                                 (''id'', JInt 1)])]
         \<and> get_logs net e (Some h) a w =
             rpc_call net e ''eth_getLogs''
               (JArr [JObj [(''fromBlock'', JStr (''-0x'' @ hex_nat (nat (2000 - h)))),
                            (''toBlock'', JStr (hex h)),
                            (''address'', JArr [case a of None \<Rightarrow> JNull | Some x \<Rightarrow> JStr x]),
                            (''topics'', JArr [])]]) w
         \<and> (\<forall>v. returns (net e (JObj [(''jsonrpc'', JStr ''2.0''), (''method'', JStr ''eth_getLogs''),
                                 (''params'',
                                    JArr [JObj [(''fromBlock'', JStr (''-0x'' @ hex_nat (nat (2000 - h)))),
                                                (''toBlock'', JStr (hex h)),
                                                (''address'', JArr [case a of None \<Rightarrow> JNull | Some x \<Rightarrow> JStr x]),
                                                (''topics'', JArr [])]]),
                                 (''id'', JInt 1)])) v \<longrightarrow>
                fst (get_logs net e (Some h) a w) = Inr v)"
proof -
  have x: "hex (h - 2000) = ''-0x'' @ hex_nat (nat (2000 - h))"
    using assms by (simp add: hex_def)
  let ?ps = "JArr [JObj [(''fromBlock'', JStr (''-0x'' @ hex_nat (nat (2000 - h)))),
                            (''toBlock'', JStr (hex h)),
                            (''address'', JArr [case a of None \<Rightarrow> JNull | Some x \<Rightarrow> JStr x]),
                            (''topics'', JArr [])]]"
  have g: "get_logs net e (Some h) a w = rpc_call net e ''eth_getLogs'' ?ps w"
    using x by (simp add: get_logs_def log_params_def)
  have s: "sent (snd (get_logs net e (Some h) a w)) = sent w @ [(e, rpc_request ''eth_getLogs'' ?ps)]"
    by (simp add: g rpc_call_sent)
  have v: "\<forall>v. returns (net e (rpc_request ''eth_getLogs'' ?ps)) v \<longrightarrow>
                fst (get_logs net e (Some h) a w) = Inr v"
    by (simp add: g rpc_call_returns_iff)
  from x g s v show ?thesis by (simp add: rpc_request_def)
qed

theorem negative_from_block_witness:
  "(0::int) \<le> 1000 \<and> (1000::int) < 2000
   \<and> hex (1000 - 2000) = ''-0x3e8''
   \<and> sent (snd (get_logs (mock NoResponse (Response 200 (Some (JObj [(''result'', JArr [])]))))
                   ''http://rpc'' (Some 1000)
                   (Some ''0x22427d20480de289795ca29c3adddb57a568e285'') world0))
       = [(''http://rpc'',
           JObj [(''jsonrpc'', JStr ''2.0''), (''method'', JStr ''eth_getLogs''),
                 (''params'',
                    JArr [JObj [(''fromBlock'', JStr ''-0x3e8''),
                                (''toBlock'', JStr ''0x3e8''),
                                (''address'', JArr [JStr ''0x22427d20480de289795ca29c3adddb57a568e285'']),
                                (''topics'', JArr [])]]),
                 (''id'', JInt 1)])]
   \<and> returns (mock NoResponse (Response 200 (Some (JObj [(''result'', JArr [])])))
               ''http://rpc''
               (JObj [(''jsonrpc'', JStr ''2.0''), (''method'', JStr ''eth_getLogs''),
                 (''params'',
                    JArr [JObj [(''fromBlock'', JStr ''-0x3e8''),
                                (''toBlock'', JStr ''0x3e8''),
                                (''address'', JArr [JStr ''0x22427d20480de289795ca29c3adddb57a568e285'']),
                                (''topics'', JArr [])]]),
                 (''id'', JInt 1)])) (JArr [])
   \<and> fst (get_logs (mock NoResponse (Response 200 (Some (JObj [(''result'', JArr [])]))))
                   ''http://rpc'' (Some 1000)
                   (Some ''0x22427d20480de289795ca29c3adddb57a568e285'') world0) = Inr (JArr [])"
proof -
  let ?net = "mock NoResponse (Response 200 (Some (JObj [(''result'', JArr [])])))"
  have a: "(0::int) \<le> 1000" and b: "(1000::int) < 2000" by simp_all
  have n: "hex_nat (nat (2000 - 1000)) = ''3e8''" by code_simp
  have t: "hex 1000 = ''0x3e8''" by code_simp
  have r: "returns (?net ''http://rpc''
               (JObj [(''jsonrpc'', JStr ''2.0''), (''method'', JStr ''eth_getLogs''),
                 (''params'',
                    JArr [JObj [(''fromBlock'', JStr ''-0x3e8''),
                                (''toBlock'', JStr ''0x3e8''),
                                (''address'', JArr [JStr ''0x22427d20480de289795ca29c3adddb57a568e285'']),
                                (''topics'', JArr [])]]),
                 (''id'', JInt 1)])) (JArr [])"
    by (simp add: mock_def height_request_def rpc_request_def)
  from negative_from_block [OF a b, where net = ?net
      and e = "''http://rpc''" and a = "Some ''0x22427d20480de289795ca29c3adddb57a568e285''" and w = world0]
  show ?thesis using n t r a b by (auto simp: world0_def)
qed

text \<open>
  Claim C6: a provider that is not a key of \<^verbatim>\<open>ADDRESSES\<close> ends the run with a failure
  of its own (argparse's exit with status 2 on a value outside \<^verbatim>\<open>choices\<close>), and no
  request is posted: the effects of the run are those before it.
\<close>

theorem unknown_provider_no_calls:
  assumes "p \<notin> fst ` set ADDRESSES"
  shows "main net p e w = (Inl (SystemExit 2), w)"
proof -
  from assms have "p \<notin> set choices" by (simp add: ADDRESSES_def choices_def)
  then show ?thesis by (rule main_unknown)
qed

theorem unknown_provider_no_calls_witness:
  "''uniswapv3'' \<notin> fst ` set ADDRESSES
   \<and> main (mock (Response 200 (Some (JObj [(''result'', JStr ''0x1388'')])))
                 (Response 200 (Some (JObj [(''result'', JArr [])]))))
          ''uniswapv3'' ''http://rpc'' world0
       = (Inl (SystemExit 2), \<lparr>sent = [], stdout = []\<rparr>)"
proof -
  have u: "''uniswapv3'' \<notin> fst ` set ADDRESSES" by (simp add: ADDRESSES_def)
  from unknown_provider_no_calls [OF u] u show ?thesis by (simp add: world0_def)
qed

text \<open>
  Claim C8: when the \<^verbatim>\<open>eth_getLogs\<close> call succeeds with a null result, the run still
  ends normally with \<^verbatim>\<open>ok\<close>, and its output records the empty answer with the line
  \<^verbatim>\<open>this shouldn't happen\<close> before \<^verbatim>\<open>ok\<close>. That outcome differs from a success with
  a result that is not null (only \<^verbatim>\<open>ok\<close> is printed) and from a transport failure of
  the logs call (the run ends with the exception of \<^verbatim>\<open>requests\<close> and prints nothing).
\<close>

theorem null_logs_reported:
  assumes "p \<in> set choices"
    and "returns (net e height_request) (JStr s)" and "int_base0 s = Some h"
  shows "(returns (net e (logs_request h)) JNull \<longrightarrow>
            main net p e w =
              (Inr (), w\<lparr>sent := sent w @ [(e, height_request), (e, logs_request h)],
                         stdout := stdout w @ [Line ''this shouldn't happen'', Line ''ok'']\<rparr>))
         \<and> (\<forall>v. returns (net e (logs_request h)) v \<and> v \<noteq> JNull \<longrightarrow>
            main net p e w =
              (Inr (), w\<lparr>sent := sent w @ [(e, height_request), (e, logs_request h)],
                         stdout := stdout w @ [Line ''ok'']\<rparr>))
         \<and> (net e (logs_request h) = NoResponse \<longrightarrow>
            main net p e w =
              (Inl ConnectionError,
               w\<lparr>sent := sent w @ [(e, height_request), (e, logs_request h)]\<rparr>))
         \<and> (\<forall>st body. net e (logs_request h) = Response st body \<and> 400 \<le> st \<and> st < 600 \<longrightarrow>
            main net p e w =
              (Inl (HTTPError st),
               w\<lparr>sent := sent w @ [(e, height_request), (e, logs_request h)]\<rparr>))"
proof (intro conjI allI impI)
  assume "returns (net e (logs_request h)) JNull"
  with assms show "main net p e w =
      (Inr (), w\<lparr>sent := sent w @ [(e, height_request), (e, logs_request h)],
                 stdout := stdout w @ [Line ''this shouldn't happen'', Line ''ok'']\<rparr>)"
    using main_logs_returned [where net = net and e = e and w = w and v = JNull] by simp
next
  fix v assume "returns (net e (logs_request h)) v \<and> v \<noteq> JNull"
  with assms show "main net p e w =
      (Inr (), w\<lparr>sent := sent w @ [(e, height_request), (e, logs_request h)],
                 stdout := stdout w @ [Line ''ok'']\<rparr>)"
    using main_logs_returned [where net = net and e = e and w = w and v = v] by simp
next
  assume n: "net e (logs_request h) = NoResponse"
  show "main net p e w =
      (Inl ConnectionError, w\<lparr>sent := sent w @ [(e, height_request), (e, logs_request h)]\<rparr>)"
    using main_logs_failed [where net = net and e = e and w = w, OF assms]
      rpc_call_no_response [where net = net and ep = e and m = "''eth_getLogs''"
        and ps = "JArr [log_params h (Some ''0x22427d20480de289795ca29c3adddb57a568e285'')]"
        and w = "w\<lparr>sent := sent w @ [(e, height_request)]\<rparr>"] n
    by (simp add: logs_request_def)
next
  fix st body assume n: "net e (logs_request h) = Response st body \<and> 400 \<le> st \<and> st < 600"
  show "main net p e w =
      (Inl (HTTPError st), w\<lparr>sent := sent w @ [(e, height_request), (e, logs_request h)]\<rparr>)"
    using main_logs_failed [where net = net and e = e and w = w, OF assms]
      rpc_call_http_error [where net = net and ep = e and m = "''eth_getLogs''"
        and ps = "JArr [log_params h (Some ''0x22427d20480de289795ca29c3adddb57a568e285'')]"
        and w = "w\<lparr>sent := sent w @ [(e, height_request)]\<rparr>" and st = st and body = body] n
    by (simp add: logs_request_def)
qed


theorem null_logs_reported_witness:
  "''camelotv3'' \<in> set choices
   \<and> int_base0 ''0x1388'' = Some 5000
   \<and> returns (mock (Response 200 (Some (JObj [(''result'', JStr ''0x1388'')]))) (Response 200 (Some (JObj [(''result'', JNull)])))
               ''http://rpc'' height_request) (JStr ''0x1388'')
   \<and> returns (mock (Response 200 (Some (JObj [(''result'', JStr ''0x1388'')]))) (Response 200 (Some (JObj [(''result'', JNull)])))
               ''http://rpc'' (logs_request 5000)) JNull
   \<and> main (mock (Response 200 (Some (JObj [(''result'', JStr ''0x1388'')]))) (Response 200 (Some (JObj [(''result'', JNull)]))))
          ''camelotv3'' ''http://rpc'' world0
       = (Inr (), \<lparr>sent = [(''http://rpc'', height_request), (''http://rpc'', logs_request 5000)],
                   stdout = [Line ''this shouldn't happen'', Line ''ok'']\<rparr>)
   \<and> returns (mock (Response 200 (Some (JObj [(''result'', JStr ''0x1388'')]))) (Response 200 (Some (JObj [(''result'', JArr [])])))
               ''http://rpc'' (logs_request 5000)) (JArr []) \<and> JArr [] \<noteq> JNull
   \<and> main (mock (Response 200 (Some (JObj [(''result'', JStr ''0x1388'')]))) (Response 200 (Some (JObj [(''result'', JArr [])]))))
          ''camelotv3'' ''http://rpc'' world0
       = (Inr (), \<lparr>sent = [(''http://rpc'', height_request), (''http://rpc'', logs_request 5000)],
                   stdout = [Line ''ok'']\<rparr>)
   \<and> mock (Response 200 (Some (JObj [(''result'', JStr ''0x1388'')]))) NoResponse ''http://rpc'' (logs_request 5000) = NoResponse
   \<and> main (mock (Response 200 (Some (JObj [(''result'', JStr ''0x1388'')]))) NoResponse) ''camelotv3'' ''http://rpc'' world0
       = (Inl ConnectionError,
          \<lparr>sent = [(''http://rpc'', height_request), (''http://rpc'', logs_request 5000)],
           stdout = []\<rparr>)
   \<and> mock (Response 200 (Some (JObj [(''result'', JStr ''0x1388'')]))) (Response 503 None) ''http://rpc'' (logs_request 5000) = Response 503 None
   \<and> (400::nat) \<le> 503 \<and> (503::nat) < 600
   \<and> main (mock (Response 200 (Some (JObj [(''result'', JStr ''0x1388'')]))) (Response 503 None)) ''camelotv3'' ''http://rpc'' world0
       = (Inl (HTTPError 503),
          \<lparr>sent = [(''http://rpc'', height_request), (''http://rpc'', logs_request 5000)],
           stdout = []\<rparr>)"
proof -
  let ?H = "Response 200 (Some (JObj [(''result'', JStr ''0x1388'')]))"
  let ?n1 = "mock ?H (Response 200 (Some (JObj [(''result'', JNull)])))"
  let ?n2 = "mock ?H (Response 200 (Some (JObj [(''result'', JArr [])])))"
  let ?n3 = "mock ?H NoResponse"
  let ?n4 = "mock ?H (Response 503 None)"
  have h: "\<And>r2. returns (mock ?H r2 ''http://rpc'' height_request) (JStr ''0x1388'')"
    by (simp add: mock_height)
  have r1: "returns (?n1 ''http://rpc'' (logs_request 5000)) JNull" by (simp add: mock_logs)
  have r2: "returns (?n2 ''http://rpc'' (logs_request 5000)) (JArr [])" by (simp add: mock_logs)
  have r3: "?n3 ''http://rpc'' (logs_request 5000) = NoResponse" by (rule mock_logs)
  have r4: "?n4 ''http://rpc'' (logs_request 5000) = Response 503 None" by (rule mock_logs)
  have a: "main ?n1 ''camelotv3'' ''http://rpc'' world0
       = (Inr (), \<lparr>sent = [(''http://rpc'', height_request), (''http://rpc'', logs_request 5000)],
                   stdout = [Line ''this shouldn't happen'', Line ''ok'']\<rparr>)"
    using null_logs_reported [where net = ?n1 and e = "''http://rpc''" and w = world0,
        OF camelotv3_choice h decode_0x1388] r1
    by (simp add: world0_def)
  have b: "main ?n2 ''camelotv3'' ''http://rpc'' world0
       = (Inr (), \<lparr>sent = [(''http://rpc'', height_request), (''http://rpc'', logs_request 5000)],
                   stdout = [Line ''ok'']\<rparr>)"
    using null_logs_reported [where net = ?n2 and e = "''http://rpc''" and w = world0,
        OF camelotv3_choice h decode_0x1388] r2
    by (auto simp: world0_def)
  have c: "main ?n3 ''camelotv3'' ''http://rpc'' world0
       = (Inl ConnectionError,
          \<lparr>sent = [(''http://rpc'', height_request), (''http://rpc'', logs_request 5000)],
           stdout = []\<rparr>)"
    using null_logs_reported [where net = ?n3 and e = "''http://rpc''" and w = world0,
        OF camelotv3_choice h decode_0x1388] r3
    by (simp add: world0_def)
  have d: "main ?n4 ''camelotv3'' ''http://rpc'' world0
       = (Inl (HTTPError 503),
          \<lparr>sent = [(''http://rpc'', height_request), (''http://rpc'', logs_request 5000)],
           stdout = []\<rparr>)"
    using null_logs_reported [where net = ?n4 and e = "''http://rpc''" and w = world0,
        OF camelotv3_choice h decode_0x1388] r4
    by (auto simp: world0_def)
  from a b c d h r1 r2 r3 r4 camelotv3_choice decode_0x1388 show ?thesis by simp
qed

text \<open>
  Claim C9: \<^verbatim>\<open>rpc_call\<close> treats a response as an RPC error only when its
  \<^verbatim>\<open>error\<close> field is truthy. With an \<^verbatim>\<open>error\<close> field that is present and falsy, the
  call does not fail and returns the \<^verbatim>\<open>result\<close> field; and whenever the call leaves
  through \<^verbatim>\<open>sys.exit(1)\<close>, the response carried a truthy \<^verbatim>\<open>error\<close>.
\<close>

theorem falsy_error_ignored:
  "(net ep (rpc_request m ps) = Response st (Some (JObj kvs))
      \<and> \<not> (400 \<le> st \<and> st < 600) \<and> map_of kvs ''error'' = Some err \<and> \<not> truthy err \<longrightarrow>
    rpc_call net ep m ps w =
      (Inr (case map_of kvs ''result'' of None \<Rightarrow> JNull | Some v \<Rightarrow> v),
       w\<lparr>sent := sent w @ [(ep, rpc_request m ps)]\<rparr>))
   \<and> (fst (rpc_call net ep m ps w) = Inl (SystemExit 1) \<longrightarrow>
       (\<exists>status d error. net ep (rpc_request m ps) = Response status (Some d)
          \<and> get d ''error'' = Inr error \<and> truthy error))"
proof (intro conjI impI)
  assume a: "net ep (rpc_request m ps) = Response st (Some (JObj kvs))
      \<and> \<not> (400 \<le> st \<and> st < 600) \<and> map_of kvs ''error'' = Some err \<and> \<not> truthy err"
  then have "returns (net ep (rpc_request m ps))
               (case map_of kvs ''result'' of None \<Rightarrow> JNull | Some v \<Rightarrow> v)"
    by simp
  then show "rpc_call net ep m ps w =
      (Inr (case map_of kvs ''result'' of None \<Rightarrow> JNull | Some v \<Rightarrow> v),
       w\<lparr>sent := sent w @ [(ep, rpc_request m ps)]\<rparr>)"
    by (rule rpc_call_returns)
next
  assume "fst (rpc_call net ep m ps w) = Inl (SystemExit 1)"
  then show "\<exists>status d error. net ep (rpc_request m ps) = Response status (Some d)
          \<and> get d ''error'' = Inr error \<and> truthy error"
    by (cases "net ep (rpc_request m ps)")
       (auto simp: rpc_call_def Let_def get_exit split: option.splits sum.splits if_splits)
qed

theorem falsy_error_ignored_witness:
  "\<not> truthy (JNull)
   \<and> rpc_call (mock (Response 200 (Some (JObj [(''error'', JNull), (''result'', JStr ''0x1388'')]))) NoResponse)
        ''http://rpc'' ''eth_blockNumber'' (JArr []) world0
       = (Inr (JStr ''0x1388''),
          \<lparr>sent = [(''http://rpc'', rpc_request ''eth_blockNumber'' (JArr []))], stdout = []\<rparr>)
   \<and> \<not> truthy (JInt 0)
   \<and> rpc_call (mock (Response 200 (Some (JObj [(''error'', JInt 0), (''result'', JStr ''0x1388'')]))) NoResponse)
        ''http://rpc'' ''eth_blockNumber'' (JArr []) world0
       = (Inr (JStr ''0x1388''),
          \<lparr>sent = [(''http://rpc'', rpc_request ''eth_blockNumber'' (JArr []))], stdout = []\<rparr>)
   \<and> \<not> truthy (JStr [])
   \<and> rpc_call (mock (Response 200 (Some (JObj [(''error'', JStr []), (''result'', JStr ''0x1388'')]))) NoResponse)
        ''http://rpc'' ''eth_blockNumber'' (JArr []) world0
       = (Inr (JStr ''0x1388''),
          \<lparr>sent = [(''http://rpc'', rpc_request ''eth_blockNumber'' (JArr []))], stdout = []\<rparr>)
   \<and> \<not> truthy (JObj [])
   \<and> rpc_call (mock (Response 200 (Some (JObj [(''error'', JObj []), (''result'', JStr ''0x1388'')]))) NoResponse)
        ''http://rpc'' ''eth_blockNumber'' (JArr []) world0
       = (Inr (JStr ''0x1388''),
          \<lparr>sent = [(''http://rpc'', rpc_request ''eth_blockNumber'' (JArr []))], stdout = []\<rparr>)
   \<and> fst (rpc_call (mock (Response 200 (Some (JObj [(''error'', JStr ''busy'')]))) NoResponse)
            ''http://rpc'' ''eth_blockNumber'' (JArr []) world0) = Inl (SystemExit 1)
   \<and> (\<exists>status d error.
         mock (Response 200 (Some (JObj [(''error'', JStr ''busy'')]))) NoResponse ''http://rpc''
           (rpc_request ''eth_blockNumber'' (JArr [])) = Response status (Some d)
         \<and> get d ''error'' = Inr error \<and> truthy error)"
proof -
  let ?bad = "mock (Response 200 (Some (JObj [(''error'', JStr ''busy'')]))) NoResponse"
  have f0: "rpc_call (mock (Response 200 (Some (JObj [(''error'', JNull), (''result'', JStr ''0x1388'')]))) NoResponse)
        ''http://rpc'' ''eth_blockNumber'' (JArr []) world0
       = (Inr (JStr ''0x1388''),
          \<lparr>sent = [(''http://rpc'', rpc_request ''eth_blockNumber'' (JArr []))], stdout = []\<rparr>)"
    using falsy_error_ignored [where net = "mock (Response 200 (Some (JObj [(''error'', JNull), (''result'', JStr ''0x1388'')]))) NoResponse"
        and ep = "''http://rpc''" and m = "''eth_blockNumber''" and ps = "JArr []" and w = world0
        and st = 200 and kvs = "[(''error'', JNull), (''result'', JStr ''0x1388'')]" and err = "JNull"]
    by (simp add: mock_request world0_def)
  have f1: "rpc_call (mock (Response 200 (Some (JObj [(''error'', JInt 0), (''result'', JStr ''0x1388'')]))) NoResponse)
        ''http://rpc'' ''eth_blockNumber'' (JArr []) world0
       = (Inr (JStr ''0x1388''),
          \<lparr>sent = [(''http://rpc'', rpc_request ''eth_blockNumber'' (JArr []))], stdout = []\<rparr>)"
    using falsy_error_ignored [where net = "mock (Response 200 (Some (JObj [(''error'', JInt 0), (''result'', JStr ''0x1388'')]))) NoResponse"
        and ep = "''http://rpc''" and m = "''eth_blockNumber''" and ps = "JArr []" and w = world0
        and st = 200 and kvs = "[(''error'', JInt 0), (''result'', JStr ''0x1388'')]" and err = "JInt 0"]
    by (simp add: mock_request world0_def)
  have f2: "rpc_call (mock (Response 200 (Some (JObj [(''error'', JStr []), (''result'', JStr ''0x1388'')]))) NoResponse)
        ''http://rpc'' ''eth_blockNumber'' (JArr []) world0
       = (Inr (JStr ''0x1388''),
          \<lparr>sent = [(''http://rpc'', rpc_request ''eth_blockNumber'' (JArr []))], stdout = []\<rparr>)"
    using falsy_error_ignored [where net = "mock (Response 200 (Some (JObj [(''error'', JStr []), (''result'', JStr ''0x1388'')]))) NoResponse"
        and ep = "''http://rpc''" and m = "''eth_blockNumber''" and ps = "JArr []" and w = world0
        and st = 200 and kvs = "[(''error'', JStr []), (''result'', JStr ''0x1388'')]" and err = "JStr []"]
    by (simp add: mock_request world0_def)
  have f3: "rpc_call (mock (Response 200 (Some (JObj [(''error'', JObj []), (''result'', JStr ''0x1388'')]))) NoResponse)
        ''http://rpc'' ''eth_blockNumber'' (JArr []) world0
       = (Inr (JStr ''0x1388''),
          \<lparr>sent = [(''http://rpc'', rpc_request ''eth_blockNumber'' (JArr []))], stdout = []\<rparr>)"
    using falsy_error_ignored [where net = "mock (Response 200 (Some (JObj [(''error'', JObj []), (''result'', JStr ''0x1388'')]))) NoResponse"
        and ep = "''http://rpc''" and m = "''eth_blockNumber''" and ps = "JArr []" and w = world0
        and st = 200 and kvs = "[(''error'', JObj []), (''result'', JStr ''0x1388'')]" and err = "JObj []"]
    by (simp add: mock_request world0_def)
  have x: "fst (rpc_call ?bad ''http://rpc'' ''eth_blockNumber'' (JArr []) world0) = Inl (SystemExit 1)"
    using rpc_call_error [where net = ?bad and ep = "''http://rpc''" and m = "''eth_blockNumber''"
        and ps = "JArr []" and w = world0 and st = 200 and kvs = "[(''error'', JStr ''busy'')]"
        and err = "JStr ''busy''"]
    by (simp add: mock_request)
  have y: "\<exists>status d error.
         ?bad ''http://rpc'' (rpc_request ''eth_blockNumber'' (JArr [])) = Response status (Some d)
         \<and> get d ''error'' = Inr error \<and> truthy error"
    using falsy_error_ignored [where net = ?bad and ep = "''http://rpc''" and m = "''eth_blockNumber''"
        and ps = "JArr []" and w = world0] x
    by blast
  from f0 f1 f2 f3 x y show ?thesis by simp
qed

section \<open>The claim about the pair mapping\<close>

text \<open>
  Claim C10: every entry of the mapping that \<^verbatim>\<open>map-kraken-pairs.py\<close> prints has a key
  different from its value: a pair whose base and quote, put together, spell its own
  symbol is never added.
\<close>

theorem mapping_no_identity:
  assumes "kraken_main r = Inr (Some m)" and "(k, v) \<in> set m"
  shows "k \<noteq> v"
proof -
  from assms(1) obtain pairs where "map_pairs pairs [] = Inr m"
    by (auto simp: kraken_main_def split: http_result.splits if_splits option.splits sum.splits)
  then have "\<forall>(k, v)\<in>set m. k \<noteq> v"
    by (rule map_pairs_no_identity) simp
  with assms(2) show ?thesis by auto
qed

theorem mapping_no_identity_witness:
  "kraken_main (Response 200 (Some (JObj [(''error'', JArr []),
       (''result'', JObj [(''XXBTZUSD'', JObj [(''altname'', JStr ''XBTUSD''), (''wsname'', JStr ''XBT/USD'')]),
                          (''ADAUSD'', JObj [(''altname'', JStr ''ADAUSD''), (''wsname'', JStr ''ADA/USD'')])])])))
     = Inr (Some [(''XBTUSD'', ''XXBTZUSD'')])
   \<and> (''XBTUSD'', ''XXBTZUSD'') \<in> set [(''XBTUSD'', ''XXBTZUSD'')]
   \<and> ''XBTUSD'' \<noteq> ''XXBTZUSD''"
proof -
  let ?r = "Response 200 (Some (JObj [(''error'', JArr []),
       (''result'', JObj [(''XXBTZUSD'', JObj [(''altname'', JStr ''XBTUSD''), (''wsname'', JStr ''XBT/USD'')]),
                          (''ADAUSD'', JObj [(''altname'', JStr ''ADAUSD''), (''wsname'', JStr ''ADA/USD'')])])]))"
  have a: "kraken_main ?r = Inr (Some [(''XBTUSD'', ''XXBTZUSD'')])"
    by (simp add: kraken_main_def)
  have b: "(''XBTUSD'', ''XXBTZUSD'') \<in> set [(''XBTUSD'', ''XXBTZUSD'')]" by simp
  from mapping_no_identity [OF a b] a b show ?thesis by simp
qed

section \<open>The claim about the encoding\<close>

text \<open>
  Claim C7, as stated: every string that \<^verbatim>\<open>int(s, 0)\<close> accepts as a non-negative
  integer comes back unchanged from \<^verbatim>\<open>hex(int(s, 0))\<close>. The decimal string
  \<^verbatim>\<open>5000\<close> is accepted and decodes to 5000, and is encoded as \<^verbatim>\<open>0x1388\<close>.
\<close>

theorem roundtrip_decimal_counterexample:
  "int_base0 ''5000'' = Some 5000 \<and> hex 5000 \<noteq> ''5000''"
  by code_simp

text \<open>
  Claim C7, amended: the round trip holds on the strings that \<^verbatim>\<open>hex\<close> itself writes.
  For every non-negative integer \<open>n\<close>, the string \<^verbatim>\<open>hex(n)\<close> is accepted by
  \<^verbatim>\<open>int(s, 0)\<close>, decodes to \<open>n\<close>, and is encoded back to the same string.
\<close>

theorem roundtrip_hex:
  assumes "0 \<le> n" and "s = hex n"
  shows "int_base0 s = Some n \<and> map_option hex (int_base0 s) = Some s"
  using assms by (simp add: int_base0_hex)

theorem roundtrip_hex_witness:
  "(0::int) \<le> 5000 \<and> ''0x1388'' = hex 5000 \<and> int_base0 ''0x1388'' = Some 5000
   \<and> map_option hex (int_base0 ''0x1388'') = Some ''0x1388''"
proof -
  have n: "(0::int) \<le> 5000" by simp
  have s: "''0x1388'' = hex 5000" by code_simp
  from roundtrip_hex [OF n s] n s show ?thesis by simp
qed

end
